theory Spec2Isabelle
  imports Complex_Main "HOL-Library.Word" "HOL-Library.Sublist"
begin

section \<open>JavaScript strings\<close>

text \<open>
  A JavaScript string is a sequence of UTF-16 code units. The service file tests for the
  bullet glyph U+2022 and trims Unicode white space, so the code unit is modelled as a
  16-bit word, not as an 8-bit \<^typ>\<open>char\<close>. An ASCII literal of the source is written
  \<open>js ''...''\<close>.
\<close>

type_synonym jschar = "16 word"
type_synonym jsstring = "jschar list"

definition js :: "string \<Rightarrow> jsstring" where
  "js s = map of_char s"

text \<open>
  The white space of \<^verbatim>\<open>String.prototype.trim\<close> and of the regular expression class
  \<^verbatim>\<open>\s\<close>: WhiteSpace and LineTerminator of ECMAScript.
\<close>

definition isWhiteSpace :: "jschar \<Rightarrow> bool" where
  "isWhiteSpace c \<longleftrightarrow>
     c \<in> {0x09, 0x0A, 0x0B, 0x0C, 0x0D, 0x20, 0xA0, 0x1680,
          0x2000, 0x2001, 0x2002, 0x2003, 0x2004, 0x2005, 0x2006, 0x2007, 0x2008, 0x2009, 0x200A,
          0x2028, 0x2029, 0x202F, 0x205F, 0x3000, 0xFEFF}"

text \<open>The characters that \<^verbatim>\<open>.\<close> of a regular expression without flags does not match.\<close>

definition isLineTerminator :: "jschar \<Rightarrow> bool" where
  "isLineTerminator c \<longleftrightarrow> c \<in> {0x0A, 0x0D, 0x2028, 0x2029}"

text \<open>\<^verbatim>\<open>s.trim()\<close>\<close>

definition trim :: "jsstring \<Rightarrow> jsstring" where
  "trim s = rev (dropWhile isWhiteSpace (rev (dropWhile isWhiteSpace s)))"

text \<open>\<^verbatim>\<open>s.startsWith(pat)\<close>\<close>

definition startsWith :: "jsstring \<Rightarrow> jsstring \<Rightarrow> bool" where
  "startsWith s pat = prefix pat s"

text \<open>\<^verbatim>\<open>s.includes(pat)\<close>\<close>

fun includes_js :: "jsstring \<Rightarrow> jsstring \<Rightarrow> bool" where
  "includes_js [] pat = (pat = [])"
| "includes_js (c # cs) pat = (prefix pat (c # cs) \<or> includes_js cs pat)"

text \<open>
  \<^verbatim>\<open>s.replace(/pat/g, '')\<close> for a literal, non-empty pattern: the matches are found from
  left to right, each search resuming after the previous match.
\<close>

fun removeAll :: "jsstring \<Rightarrow> jsstring \<Rightarrow> jsstring" where
  "removeAll [] pat = []"
| "removeAll (c # cs) pat =
     (if prefix pat (c # cs) then removeAll (drop (length pat - 1) cs) pat
      else c # removeAll cs pat)"

text \<open>\<^verbatim>\<open>s.split('\n')\<close>: the pieces between the separators; never an empty list.\<close>

fun split :: "jsstring \<Rightarrow> jschar \<Rightarrow> jsstring list" where
  "split [] sep = [[]]"
| "split (c # cs) sep =
     (if c = sep then [] # split cs sep
      else (case split cs sep of [] \<Rightarrow> [[c]] | l # ls \<Rightarrow> (c # l) # ls))"

text \<open>\<^verbatim>\<open>xs.join(sep)\<close>\<close>

fun join :: "jsstring list \<Rightarrow> jsstring \<Rightarrow> jsstring" where
  "join [] sep = []"
| "join [x] sep = x"
| "join (x # y # ys) sep = x @ sep @ join (y # ys) sep"

text \<open>A number in a template literal: its decimal digits.\<close>

fun decimal :: "nat \<Rightarrow> jsstring" where
  "decimal n = (if n < 10 then [0x30 + of_nat n] else decimal (n div 10) @ [0x30 + of_nat (n mod 10)])"

section \<open>Sanitising a model response\<close>

text \<open>
  Both \<^verbatim>\<open>generateOutlines\<close> and \<^verbatim>\<open>generateChapterDetails\<close> compute
  \<^verbatim>\<open>text.replace(/```json/g, '').replace(/```/g, '').trim()\<close> before parsing.
\<close>

definition stripFences :: "jsstring \<Rightarrow> jsstring" where
  "stripFences text = trim (removeAll (removeAll text (js ''```json'')) (js ''```''))"

text \<open>
  The wrapping that the sanitiser is written for: a response that puts its JSON text
  inside a Markdown code block tagged \<^verbatim>\<open>json\<close>.
\<close>

definition fenced :: "jsstring \<Rightarrow> jsstring" where
  "fenced j = js ''```json'' @ [0x0A] @ j @ [0x0A] @ js ''```''"

text \<open>The number of backticks that a string starts with.\<close>

definition ticks :: "jsstring \<Rightarrow> nat" where
  "ticks s = length (takeWhile (\<lambda>c. c = 0x60) s)"

section \<open>JSON values and \<^verbatim>\<open>JSON.parse\<close>\<close>

text \<open>
  \<^verbatim>\<open>JSON.parse\<close> is a built-in of the platform, not code of the repository. It is modelled
  in full after the JSON grammar of ECMA-404, which \<^verbatim>\<open>JSON.parse\<close> implements: a lexer that
  reads one code unit at a time, and a parser that reads one token at a time and keeps the
  open arrays and objects on a stack. \<open>None\<close> is the \<^verbatim>\<open>SyntaxError\<close> that
  \<^verbatim>\<open>JSON.parse\<close> throws. A number keeps its source text: its floating-point value is not
  interpreted, and nothing in the services reads it.
\<close>

datatype json =
    JNull
  | JBool bool
  | JNumber jsstring
  | JString jsstring
  | JArray "json list"
  | JObject "(jsstring \<times> json) list"

datatype token =
    TLBrace | TRBrace | TLBracket | TRBracket | TColon | TComma
  | TString jsstring | TNumber jsstring | TTrue | TFalse | TNull

datatype numstate = NMinus | NZero | NInt | NPoint | NFrac | NExp | NExpSign | NExpDigits

datatype lexmode =
    LIdle
  | LString jsstring
  | LEscape jsstring
  | LUnicode jsstring "jschar list"
  | LNumber numstate jsstring
  | LLiteral jsstring token

definition isJsonSpace :: "jschar \<Rightarrow> bool" where
  "isJsonSpace c \<longleftrightarrow> c = 0x20 \<or> c = 0x09 \<or> c = 0x0A \<or> c = 0x0D"

definition isDigit :: "jschar \<Rightarrow> bool" where
  "isDigit c \<longleftrightarrow> 0x30 \<le> c \<and> c \<le> 0x39"

definition hexValue :: "jschar \<Rightarrow> jschar option" where
  "hexValue c =
     (if 0x30 \<le> c \<and> c \<le> 0x39 then Some (c - 0x30)
      else if 0x41 \<le> c \<and> c \<le> 0x46 then Some (c - 0x37)
      else if 0x61 \<le> c \<and> c \<le> 0x66 then Some (c - 0x57)
      else None)"

text \<open>The code unit that the four hexadecimal digits of a \<^verbatim>\<open>\uXXXX\<close> escape denote.\<close>

definition hexCode :: "jschar list \<Rightarrow> jschar" where
  "hexCode ds = foldl (\<lambda>acc d. acc * 16 + d) 0 ds"

fun numStep :: "numstate \<Rightarrow> jschar \<Rightarrow> numstate option" where
  "numStep NMinus c = (if c = 0x30 then Some NZero else if isDigit c then Some NInt else None)"
| "numStep NZero c =
     (if c = 0x2E then Some NPoint else if c = 0x65 \<or> c = 0x45 then Some NExp else None)"
| "numStep NInt c =
     (if isDigit c then Some NInt else if c = 0x2E then Some NPoint
      else if c = 0x65 \<or> c = 0x45 then Some NExp else None)"
| "numStep NPoint c = (if isDigit c then Some NFrac else None)"
| "numStep NFrac c =
     (if isDigit c then Some NFrac else if c = 0x65 \<or> c = 0x45 then Some NExp else None)"
| "numStep NExp c =
     (if c = 0x2B \<or> c = 0x2D then Some NExpSign else if isDigit c then Some NExpDigits else None)"
| "numStep NExpSign c = (if isDigit c then Some NExpDigits else None)"
| "numStep NExpDigits c = (if isDigit c then Some NExpDigits else None)"

fun numFinal :: "numstate \<Rightarrow> bool" where
  "numFinal NZero = True"
| "numFinal NInt = True"
| "numFinal NFrac = True"
| "numFinal NExpDigits = True"
| "numFinal NMinus = False"
| "numFinal NPoint = False"
| "numFinal NExp = False"
| "numFinal NExpSign = False"

text \<open>A code unit read between two tokens: the new mode and the tokens that are complete.\<close>

definition lexIdle :: "jschar \<Rightarrow> (lexmode \<times> token list) option" where
  "lexIdle c =
     (if isJsonSpace c then Some (LIdle, [])
      else if c = 0x7B then Some (LIdle, [TLBrace])
      else if c = 0x7D then Some (LIdle, [TRBrace])
      else if c = 0x5B then Some (LIdle, [TLBracket])
      else if c = 0x5D then Some (LIdle, [TRBracket])
      else if c = 0x3A then Some (LIdle, [TColon])
      else if c = 0x2C then Some (LIdle, [TComma])
      else if c = 0x22 then Some (LString [], [])
      else if c = 0x2D then Some (LNumber NMinus [c], [])
      else if c = 0x30 then Some (LNumber NZero [c], [])
      else if isDigit c then Some (LNumber NInt [c], [])
      else if c = 0x74 then Some (LLiteral (js ''rue'') TTrue, [])
      else if c = 0x66 then Some (LLiteral (js ''alse'') TFalse, [])
      else if c = 0x6E then Some (LLiteral (js ''ull'') TNull, [])
      else None)"

text \<open>The character that follows a backslash in a string.\<close>

definition lexEscape :: "jsstring \<Rightarrow> jschar \<Rightarrow> (lexmode \<times> token list) option" where
  "lexEscape b c =
     (if c = 0x22 \<or> c = 0x5C \<or> c = 0x2F then Some (LString (b @ [c]), [])
      else if c = 0x62 then Some (LString (b @ [0x08]), [])
      else if c = 0x66 then Some (LString (b @ [0x0C]), [])
      else if c = 0x6E then Some (LString (b @ [0x0A]), [])
      else if c = 0x72 then Some (LString (b @ [0x0D]), [])
      else if c = 0x74 then Some (LString (b @ [0x09]), [])
      else if c = 0x75 then Some (LUnicode b [], [])
      else None)"

fun lexStep :: "lexmode \<Rightarrow> jschar \<Rightarrow> (lexmode \<times> token list) option" where
  "lexStep LIdle c = lexIdle c"
| "lexStep (LString b) c =
     (if c = 0x22 then Some (LIdle, [TString b])
      else if c = 0x5C then Some (LEscape b, [])
      else if c < 0x20 then None
      else Some (LString (b @ [c]), []))"
| "lexStep (LEscape b) c = lexEscape b c"
| "lexStep (LUnicode b ds) c =
     (case hexValue c of
        None \<Rightarrow> None
      | Some h \<Rightarrow>
          if length ds = 3 then Some (LString (b @ [hexCode (ds @ [h])]), [])
          else Some (LUnicode b (ds @ [h]), []))"
| "lexStep (LNumber st b) c =
     (case numStep st c of
        Some st' \<Rightarrow> Some (LNumber st' (b @ [c]), [])
      | None \<Rightarrow>
          if numFinal st then
            (case lexIdle c of None \<Rightarrow> None | Some (m, ts) \<Rightarrow> Some (m, TNumber b # ts))
          else None)"
| "lexStep (LLiteral rest tok) c =
     (case rest of
        [] \<Rightarrow> None
      | r # rs \<Rightarrow>
          if c \<noteq> r then None
          else if rs = [] then Some (LIdle, [tok])
          else Some (LLiteral rs tok, []))"

text \<open>The end of the input closes a number; inside a string or a literal it is an error.\<close>

fun lexEnd :: "lexmode \<Rightarrow> token list option" where
  "lexEnd LIdle = Some []"
| "lexEnd (LNumber st b) = (if numFinal st then Some [TNumber b] else None)"
| "lexEnd (LString b) = None"
| "lexEnd (LEscape b) = None"
| "lexEnd (LUnicode b ds) = None"
| "lexEnd (LLiteral rest tok) = None"

fun lexer :: "lexmode \<Rightarrow> jsstring \<Rightarrow> token list option" where
  "lexer m [] = lexEnd m"
| "lexer m (c # cs) =
     (case lexStep m c of
        None \<Rightarrow> None
      | Some (m', ts) \<Rightarrow> (case lexer m' cs of None \<Rightarrow> None | Some rest \<Rightarrow> Some (ts @ rest)))"

text \<open>
  An object is the list of its members in the order of their first appearance; a key that
  appears again overwrites the value, as \<^verbatim>\<open>JSON.parse\<close> does.
\<close>

fun setProperty :: "(jsstring \<times> json) list \<Rightarrow> jsstring \<Rightarrow> json \<Rightarrow> (jsstring \<times> json) list" where
  "setProperty [] k v = [(k, v)]"
| "setProperty (p # ps) k v = (if fst p = k then (k, v) # ps else p # setProperty ps k v)"

datatype frame =
    ArrayFrame "json list"
  | ObjectFrame "(jsstring \<times> json) list" jsstring

datatype pstate =
    ExpectValue "frame list"
  | ArrayOpen "frame list"
  | AfterElement "json list" "frame list"
  | ObjectOpen "frame list"
  | AfterMember "(jsstring \<times> json) list" "frame list"
  | ExpectKey "(jsstring \<times> json) list" "frame list"
  | ExpectColon "(jsstring \<times> json) list" jsstring "frame list"
  | Done json

text \<open>A value is complete: it goes into the innermost open array or object.\<close>

fun complete :: "json \<Rightarrow> frame list \<Rightarrow> pstate" where
  "complete v [] = Done v"
| "complete v (ArrayFrame es # st) = AfterElement (es @ [v]) st"
| "complete v (ObjectFrame ms k # st) = AfterMember (setProperty ms k v) st"

fun startValue :: "frame list \<Rightarrow> token \<Rightarrow> pstate option" where
  "startValue st TLBracket = Some (ArrayOpen st)"
| "startValue st TLBrace = Some (ObjectOpen st)"
| "startValue st (TString s) = Some (complete (JString s) st)"
| "startValue st (TNumber n) = Some (complete (JNumber n) st)"
| "startValue st TTrue = Some (complete (JBool True) st)"
| "startValue st TFalse = Some (complete (JBool False) st)"
| "startValue st TNull = Some (complete JNull st)"
| "startValue st TRBrace = None"
| "startValue st TRBracket = None"
| "startValue st TColon = None"
| "startValue st TComma = None"

fun parseStep :: "pstate \<Rightarrow> token \<Rightarrow> pstate option" where
  "parseStep (ExpectValue st) t = startValue st t"
| "parseStep (ArrayOpen st) t =
     (if t = TRBracket then Some (complete (JArray []) st) else startValue (ArrayFrame [] # st) t)"
| "parseStep (AfterElement es st) t =
     (if t = TComma then Some (ExpectValue (ArrayFrame es # st))
      else if t = TRBracket then Some (complete (JArray es) st)
      else None)"
| "parseStep (ObjectOpen st) t =
     (case t of
        TRBrace \<Rightarrow> Some (complete (JObject []) st)
      | TString k \<Rightarrow> Some (ExpectColon [] k st)
      | _ \<Rightarrow> None)"
| "parseStep (AfterMember ms st) t =
     (if t = TComma then Some (ExpectKey ms st)
      else if t = TRBrace then Some (complete (JObject ms) st)
      else None)"
| "parseStep (ExpectKey ms st) t =
     (case t of TString k \<Rightarrow> Some (ExpectColon ms k st) | _ \<Rightarrow> None)"
| "parseStep (ExpectColon ms k st) t =
     (if t = TColon then Some (ExpectValue (ObjectFrame ms k # st)) else None)"
| "parseStep (Done v) t = None"

fun parseTokens :: "pstate \<Rightarrow> token list \<Rightarrow> json option" where
  "parseTokens s [] = (case s of Done v \<Rightarrow> Some v | _ \<Rightarrow> None)"
| "parseTokens s (t # ts) =
     (case parseStep s t of None \<Rightarrow> None | Some s' \<Rightarrow> parseTokens s' ts)"

definition JSON_parse :: "jsstring \<Rightarrow> json option" where
  "JSON_parse text =
     (case lexer LIdle text of
        None \<Rightarrow> None
      | Some ts \<Rightarrow> parseTokens (ExpectValue []) ts)"

section \<open>The types of \<^verbatim>\<open>types.ts\<close> and of the two provider boundaries\<close>

text \<open>
  \<^verbatim>\<open>AIConfig\<close>. The provider is declared as \<^verbatim>\<open>'gemini' | 'openai'\<close>, but \<^verbatim>\<open>callAI\<close>
  compares it as a string and has a branch for every other value, so it stays a string.
  An optional field is an \<open>option\<close>.
\<close>

record AIConfig =
  provider :: jsstring
  modelName :: jsstring
  apiKey :: "jsstring option"
  baseUrl :: "jsstring option"

text \<open>
  A part of a multimodal prompt, as \<^verbatim>\<open>callAI\<close> reads it: an object that may have a
  \<^verbatim>\<open>text\<close> and may have an \<^verbatim>\<open>inlineData\<close>.
\<close>

record InlineData =
  mimeType :: jsstring
  data :: jsstring

record Part =
  partText :: "jsstring option"
  inlineData :: "InlineData option"

definition textPart :: "jsstring \<Rightarrow> Part" where
  "textPart t = \<lparr>partText = Some t, inlineData = None\<rparr>"

definition imagePart :: "jsstring \<Rightarrow> jsstring \<Rightarrow> Part" where
  "imagePart m d = \<lparr>partText = None, inlineData = Some \<lparr>mimeType = m, data = d\<rparr>\<rparr>"

text \<open>\<^verbatim>\<open>prompt: string | any[]\<close>\<close>

datatype Prompt = StringPrompt jsstring | PartsPrompt "Part list"

text \<open>The response schema that the services hand to the structured provider.\<close>

datatype Schema =
    SchemaString
  | SchemaArray Schema
  | SchemaObject "(jsstring \<times> Schema) list" "jsstring list"

text \<open>The argument of \<^verbatim>\<open>systemAi.models.generateContent\<close>.\<close>

datatype Contents = ContentsString jsstring | ContentsParts "Part list"

record GenerateOptions =
  optModel :: jsstring
  optContents :: Contents
  optSystemInstruction :: "jsstring option"
  optResponseMimeType :: jsstring
  optResponseSchema :: "Schema option"

text \<open>
  The request of the generic provider. The body is kept as the object that
  \<^verbatim>\<open>JSON.stringify\<close> receives; \<open>responseFormat\<close> is the \<^verbatim>\<open>type\<close> of
  \<^verbatim>\<open>response_format\<close> when the field is set.
\<close>

datatype ContentEntry = TextEntry jsstring | ImageUrlEntry jsstring

datatype MessageContent = StringContent jsstring | ArrayContent "ContentEntry list"

record Message =
  role :: jsstring
  content :: MessageContent

record ChatBody =
  model :: jsstring
  messages :: "Message list"
  temperature :: rat
  responseFormat :: "jsstring option"

record HttpRequest =
  url :: jsstring
  httpMethod :: jsstring
  headers :: "(jsstring \<times> jsstring) list"
  body :: ChatBody

text \<open>A thrown \<^verbatim>\<open>Error\<close> and its message.\<close>

datatype JsError = Error (message: jsstring)

text \<open>
  What \<^verbatim>\<open>callAI\<close> reads of a \<^verbatim>\<open>fetch\<close> response: \<^verbatim>\<open>res.ok\<close>, \<^verbatim>\<open>res.status\<close>, the text of
  the body, and the outcome of \<^verbatim>\<open>await res.json()\<close> followed by
  \<^verbatim>\<open>data.choices?.[0]?.message?.content\<close>: an error when one of the two throws, else the
  content, which the chat-completion contract makes a string when it is there.
\<close>

record HttpResponse =
  ok :: bool
  status :: nat
  bodyText :: jsstring
  bodyContent :: "JsError + jsstring option"

text \<open>
  The world outside: the SDK call of the structured provider, which throws or returns a
  response whose \<^verbatim>\<open>text\<close> may be absent, and \<^verbatim>\<open>fetch\<close>, which rejects or resolves.
\<close>

record World =
  generateContent :: "GenerateOptions \<Rightarrow> JsError + jsstring option"
  fetch :: "HttpRequest \<Rightarrow> JsError + HttpResponse"

text \<open>
  What a call did besides returning: the network calls it made, in order, the lines it
  wrote with \<^verbatim>\<open>console.error\<close> (label and detail), and its result, \<open>Inl\<close> when it threw.
\<close>

datatype NetCall = SdkCall GenerateOptions | HttpPost HttpRequest

datatype LogEntry = ConsoleError jsstring jsstring

record 'a Outcome =
  calls :: "NetCall list"
  console :: "LogEntry list"
  result :: "JsError + 'a"

text \<open>The truth value of an optional string: absent and empty are both false.\<close>

fun truthy :: "jsstring option \<Rightarrow> bool" where
  "truthy None = False"
| "truthy (Some s) = (s \<noteq> [])"

definition nl :: jsstring where
  "nl = [0x0A]"

definition dq :: jsstring where
  "dq = [0x22]"

section \<open>The gateway \<^verbatim>\<open>callAI\<close>\<close>

text \<open>\<^verbatim>\<open>url.replace(/\/$/, '')\<close>: one slash at the end of the string is removed.\<close>

definition stripTrailingSlash :: "jsstring \<Rightarrow> jsstring" where
  "stripTrailingSlash u = (if u \<noteq> [] \<and> last u = 0x2F then butlast u else u)"

text \<open>Lines 47 to 51.\<close>

definition endpointUrl :: "jsstring \<Rightarrow> jsstring" where
  "endpointUrl u =
     (if \<not> includes_js u (js ''/chat/completions'')
      then stripTrailingSlash u @ js ''/chat/completions''
      else u)"

text \<open>Lines 63 to 73: the entry of one part, \<open>None\<close> for the \<^verbatim>\<open>null\<close> that is filtered out.\<close>

definition translatePart :: "Part \<Rightarrow> ContentEntry option" where
  "translatePart part =
     (if truthy (partText part) then map_option TextEntry (partText part)
      else (case inlineData part of
              Some d \<Rightarrow> Some (ImageUrlEntry (js ''data:'' @ mimeType d @ js '';base64,'' @ data d))
            | None \<Rightarrow> None))"

text \<open>Lines 58 to 82.\<close>

fun userContent :: "Prompt \<Rightarrow> jsstring \<Rightarrow> MessageContent" where
  "userContent (PartsPrompt parts) responseMimeType =
     ArrayContent (List.map_filter translatePart parts)"
| "userContent (StringPrompt prompt) responseMimeType =
     StringContent
       (if responseMimeType = js ''application/json''
        then prompt @ nl @ nl
          @ js ''IMPORTANT: Respond with valid JSON only. Do not use Markdown code blocks.''
        else prompt)"

text \<open>Lines 53 to 105: the request that \<^verbatim>\<open>fetch\<close> receives.\<close>

definition chatRequest ::
  "jsstring \<Rightarrow> jsstring \<Rightarrow> jsstring \<Rightarrow> Prompt \<Rightarrow> jsstring option \<Rightarrow> jsstring \<Rightarrow> HttpRequest" where
  "chatRequest key base mdl prompt systemInstruction responseMimeType =
     \<lparr>url = endpointUrl base,
      httpMethod = js ''POST'',
      headers = [(js ''Content-Type'', js ''application/json''),
                 (js ''Authorization'', js ''Bearer '' @ key)],
      body = \<lparr>model = mdl,
              messages =
                (case systemInstruction of
                   Some (c # cs) \<Rightarrow> [\<lparr>role = js ''system'', content = StringContent (c # cs)\<rparr>]
                 | _ \<Rightarrow> [])
                @ [\<lparr>role = js ''user'', content = userContent prompt responseMimeType\<rparr>],
              temperature = 7 / 10,
              responseFormat =
                (if responseMimeType = js ''application/json'' then Some (js ''json_object'')
                 else None)\<rparr>\<rparr>"

text \<open>Lines 22 to 34.\<close>

definition generateOptions ::
  "jsstring \<Rightarrow> Prompt \<Rightarrow> jsstring option \<Rightarrow> jsstring \<Rightarrow> Schema option \<Rightarrow> GenerateOptions" where
  "generateOptions mdl prompt systemInstruction responseMimeType responseSchema =
     \<lparr>optModel = mdl,
      optContents = (case prompt of StringPrompt p \<Rightarrow> ContentsString p
                                  | PartsPrompt ps \<Rightarrow> ContentsParts ps),
      optSystemInstruction = systemInstruction,
      optResponseMimeType = responseMimeType,
      optResponseSchema = responseSchema\<rparr>"

text \<open>\<^verbatim>\<open>x || ""\<close> for an optional string.\<close>

fun orEmpty :: "jsstring option \<Rightarrow> jsstring" where
  "orEmpty None = []"
| "orEmpty (Some s) = s"

text \<open>Lines 98 to 113, the body of the \<^verbatim>\<open>try\<close>.\<close>

definition postChat :: "World \<Rightarrow> HttpRequest \<Rightarrow> JsError + jsstring" where
  "postChat w req =
     (case fetch w req of
        Inl e \<Rightarrow> Inl e
      | Inr res \<Rightarrow>
          if \<not> ok res
          then Inl (Error (js ''API Error ('' @ decimal (status res) @ js ''): '' @ bodyText res))
          else (case bodyContent res of
                  Inl e \<Rightarrow> Inl e
                | Inr c \<Rightarrow> Inr (orEmpty c)))"

definition callAI ::
  "World \<Rightarrow> Prompt \<Rightarrow> AIConfig \<Rightarrow> jsstring option \<Rightarrow> jsstring \<Rightarrow> Schema option
     \<Rightarrow> jsstring Outcome" where
  "callAI w prompt config systemInstruction responseMimeType responseSchema =
     (if provider config = js ''gemini'' then
        (let options = generateOptions (modelName config) prompt systemInstruction
                         responseMimeType responseSchema
         in \<lparr>calls = [SdkCall options], console = [],
             result = (case generateContent w options of
                         Inl e \<Rightarrow> Inl e
                       | Inr t \<Rightarrow> Inr (orEmpty t))\<rparr>)
      else if provider config = js ''openai'' then
        (case (apiKey config, baseUrl config) of
           (Some (k # ks), Some (b # bs)) \<Rightarrow>
             (let req = chatRequest (k # ks) (b # bs) (modelName config) prompt
                          systemInstruction responseMimeType
              in (case postChat w req of
                    Inr t \<Rightarrow> \<lparr>calls = [HttpPost req], console = [], result = Inr t\<rparr>
                  | Inl e \<Rightarrow>
                      \<lparr>calls = [HttpPost req],
                       console = [ConsoleError (js ''External API Call Failed'') (message e)],
                       result = Inl (Error (js ''External AI Error: '' @ message e))\<rparr>))
         | _ \<Rightarrow>
             \<lparr>calls = [], console = [],
              result = Inl (Error (js ''Missing API Key or Base URL for custom provider''))\<rparr>)
      else \<lparr>calls = [], console = [], result = Inl (Error (js ''Unknown Provider''))\<rparr>)"

text \<open>\<^verbatim>\<open>validateConnection\<close>: the probe logs a failure and throws it again.\<close>

definition validateConnection :: "World \<Rightarrow> AIConfig \<Rightarrow> bool Outcome" where
  "validateConnection w config =
     (let r = callAI w (StringPrompt (js ''Hi'')) config None (js ''text/plain'') None
      in (case result r of
            Inr t \<Rightarrow> \<lparr>calls = calls r, console = console r, result = Inr True\<rparr>
          | Inl e \<Rightarrow>
              \<lparr>calls = calls r,
               console = console r @ [ConsoleError (js ''Connection Validation Failed'') (message e)],
               result = Inl e\<rparr>))"

section \<open>The services\<close>

subsection \<open>\<^verbatim>\<open>generateOutlines\<close>\<close>

definition styleRequirement :: "jsstring \<Rightarrow> jsstring" where
  "styleRequirement customStyle =
     (if customStyle \<noteq> []
      then concat [js ''User's specific style requirement: '', dq, customStyle, dq, js ''.'']
      else [])"

definition outlinesPrompt :: "jsstring \<Rightarrow> jsstring \<Rightarrow> jsstring" where
  "outlinesPrompt topic customStyle =
     concat
      [nl, js ''    You are a professional document architect. '', nl,
       js ''    The user wants to write a document about: '', dq, topic, dq, js ''.'', nl,
       js ''    '', styleRequirement customStyle, nl, js ''    '', nl,
       js ''    Please generate 3 distinct outlines.'', nl,
       js ''    If the user provided a specific style, ensure at least 2 outlines align closely with that style, but offer 1 variation.'',
       nl,
       js ''    If no style was provided, offer diverse tones (e.g., Academic, Professional, Creative).'',
       nl, nl, js ''    For each outline, provide:'', nl,
       js ''    1. style: A short name for the tone/style.'', nl,
       js ''    2. description: A brief explanation of the approach.'', nl,
       js ''    3. chapters: A list of chapter titles (5-8 chapters).'', nl, js ''  '']"
definition outlinesSchema :: Schema where
  "outlinesSchema =
     SchemaObject
       [(js ''outlines'',
         SchemaArray
           (SchemaObject
              [(js ''style'', SchemaString),
               (js ''description'', SchemaString),
               (js ''chapters'', SchemaArray SchemaString)]
              [js ''style'', js ''description'', js ''chapters'']))]
       []"

text \<open>
  The result is the parsed value, cast to \<^verbatim>\<open>GeneratedOutlineResponse\<close> by the type system
  only: nothing is checked at run time.
\<close>

definition generateOutlines :: "World \<Rightarrow> jsstring \<Rightarrow> jsstring \<Rightarrow> AIConfig \<Rightarrow> json Outcome" where
  "generateOutlines w topic customStyle config =
     (if topic = [] then
        \<lparr>calls = [], console = [], result = Inl (Error (js ''Topic is required''))\<rparr>
      else
        (let r = callAI w (StringPrompt (outlinesPrompt topic customStyle)) config None
                   (js ''application/json'')
                   (if provider config = js ''gemini'' then Some outlinesSchema else None)
         in (case result r of
               Inl e \<Rightarrow> \<lparr>calls = calls r, console = console r, result = Inl e\<rparr>
             | Inr text \<Rightarrow>
                 (case JSON_parse (stripFences text) of
                    Some v \<Rightarrow> \<lparr>calls = calls r, console = console r, result = Inr v\<rparr>
                  | None \<Rightarrow>
                      \<lparr>calls = calls r,
                       console = console r @ [ConsoleError (js ''Failed to parse JSON'') text],
                       result = Inl (Error (js ''AI response was not valid JSON. Please try again.''))\<rparr>))))"

subsection \<open>\<^verbatim>\<open>generateChapterDetails\<close>\<close>

definition detailsPrompt :: "jsstring \<Rightarrow> jsstring \<Rightarrow> jsstring list \<Rightarrow> jsstring" where
  "detailsPrompt topic chapterTitle context =
     concat
      [nl, js ''    Context: A document about '', dq, topic, dq, js ''.'', nl,
       js ''    Outline context: '', join context (js '', ''), js ''.'', nl, js ''    '', nl,
       js ''    Task: Create a detailed content plan (bullet points) for the chapter: '', dq,
       chapterTitle, dq, js ''.'', nl,
       js ''    Focus on what specific sub-topics, arguments, or data points should be covered.'',
       nl, js ''    Return a JSON object with a single key '', dq, js ''details'', dq,
       js '' containing an array of 4-6 strings.'', nl, js ''  '']"
definition detailsSchema :: Schema where
  "detailsSchema = SchemaObject [(js ''details'', SchemaArray SchemaString)] []"

text \<open>A JavaScript value that may be \<^verbatim>\<open>undefined\<close>.\<close>

datatype jsval = Undefined | Defined json

text \<open>
  \<^verbatim>\<open>data.details\<close> on a parsed value: reading a property of \<^verbatim>\<open>null\<close> throws a
  \<^verbatim>\<open>TypeError\<close> (\<open>None\<close>); an object gives its member, and every other value, which has
  no property of that name, gives \<^verbatim>\<open>undefined\<close>.
\<close>

fun readDetails :: "json \<Rightarrow> jsval option" where
  "readDetails JNull = None"
| "readDetails (JObject ms) =
     Some (case map_of ms (js ''details'') of None \<Rightarrow> Undefined | Some v \<Rightarrow> Defined v)"
| "readDetails (JBool b) = Some Undefined"
| "readDetails (JNumber n) = Some Undefined"
| "readDetails (JString s) = Some Undefined"
| "readDetails (JArray xs) = Some Undefined"

text \<open>The filter of line 221: the trimmed line starts with a dash or with U+2022.\<close>

definition isBulletLine :: "jsstring \<Rightarrow> bool" where
  "isBulletLine line \<longleftrightarrow> startsWith (trim line) (js ''-'') \<or> startsWith (trim line) [0x2022]"

text \<open>
  \<^verbatim>\<open>l.replace(/^[-\<bullet>]\s*/, '')\<close>: the pattern is anchored at the start of the line as it
  is, not of the trimmed line.
\<close>

fun stripMarker :: "jsstring \<Rightarrow> jsstring" where
  "stripMarker [] = []"
| "stripMarker (c # cs) =
     (if c = 0x2D \<or> c = 0x2022 then dropWhile isWhiteSpace cs else c # cs)"

definition bulletFallback :: "jsstring \<Rightarrow> jsstring list" where
  "bulletFallback text = map stripMarker (filter isBulletLine (split text 0x0A))"

text \<open>Lines 215 to 222: the \<^verbatim>\<open>catch\<close> is entered by a throw of either statement of the \<^verbatim>\<open>try\<close>.\<close>

definition detailsOfText :: "jsstring \<Rightarrow> jsval" where
  "detailsOfText text =
     (case JSON_parse (stripFences text) of
        None \<Rightarrow> Defined (JArray (map JString (bulletFallback text)))
      | Some d \<Rightarrow>
          (case readDetails d of
             None \<Rightarrow> Defined (JArray (map JString (bulletFallback text)))
           | Some v \<Rightarrow> v))"

definition generateChapterDetails ::
  "World \<Rightarrow> jsstring \<Rightarrow> jsstring \<Rightarrow> jsstring list \<Rightarrow> AIConfig \<Rightarrow> jsval Outcome" where
  "generateChapterDetails w topic chapterTitle context config =
     (let r = callAI w (StringPrompt (detailsPrompt topic chapterTitle context)) config None
                (js ''application/json'')
                (if provider config = js ''gemini'' then Some detailsSchema else None)
      in \<lparr>calls = calls r, console = console r,
          result = (case result r of Inl e \<Rightarrow> Inl e | Inr text \<Rightarrow> Inr (detailsOfText text))\<rparr>)"

subsection \<open>\<^verbatim>\<open>generateChapterContent\<close>\<close>

definition contentPrompt :: "jsstring \<Rightarrow> jsstring \<Rightarrow> jsstring list \<Rightarrow> jsstring \<Rightarrow> jsstring" where
  "contentPrompt topic chapterTitle points tone =
     concat
      [nl, js ''    You are writing a section of a document.'', nl,
       js ''    Document Topic: '', dq, topic, dq, nl, js ''    Tone/Style: '', tone, nl,
       js ''    '', nl, js ''    Chapter Title: '', dq, chapterTitle, dq, nl,
       js ''    Key Points to Cover:'', nl, js ''    '',
       join (map (\<lambda>p. js ''- '' @ p) points) nl, nl, js ''    '', nl,
       js ''    Write the full content for this chapter in Markdown format. '', nl,
       js ''    Do not include the chapter title in the output.'', nl,
       js ''    Focus on high-quality, coherent paragraphs.'', nl, js ''  '']"
definition imageInstruction :: "jsstring" where
  "imageInstruction =
     concat
      [nl, js ''    '', nl,
       js ''[IMPORTANT] A chart/image has been provided for this section. '', nl,
       js ''    Analyze the visual data in the image provided and incorporate specific insights, trends, or numbers from the chart into your writing.'',
       nl, js ''    Ensure the analysis flows naturally with the key points provided.'', nl,
       js ''    '']"
text \<open>
  \<^verbatim>\<open>s.match(/^data:(.+);base64,(.+)$/)\<close>. Without flags \<^verbatim>\<open>.\<close> matches every code unit
  but a line terminator, and \<^verbatim>\<open>^\<close> and \<^verbatim>\<open>$\<close> are the two ends of the string. The first
  group is greedy: of the places where \<^verbatim>\<open>;base64,\<close> stands between two non-empty
  pieces, the last one is taken. \<open>splitLast pre s\<close> looks for that place in \<open>s\<close>, with
  \<open>pre\<close> the text already passed.
\<close>

fun splitLast :: "jsstring \<Rightarrow> jsstring \<Rightarrow> (jsstring \<times> jsstring) option" where
  "splitLast pre [] = None"
| "splitLast pre (c # cs) =
     (case splitLast (pre @ [c]) cs of
        Some r \<Rightarrow> Some r
      | None \<Rightarrow>
          if pre \<noteq> [] \<and> prefix (js '';base64,'') (c # cs) \<and> drop 8 (c # cs) \<noteq> []
          then Some (pre, drop 8 (c # cs))
          else None)"

definition matchDataUri :: "jsstring \<Rightarrow> (jsstring \<times> jsstring) option" where
  "matchDataUri s =
     (if prefix (js ''data:'') s \<and> \<not> list_ex isLineTerminator (drop 5 s)
      then splitLast [] (drop 5 s)
      else None)"

text \<open>Lines 233 to 253.\<close>

definition promptText :: "jsstring \<Rightarrow> jsstring \<Rightarrow> jsstring list \<Rightarrow> jsstring \<Rightarrow> jsstring option \<Rightarrow> jsstring" where
  "promptText topic chapterTitle points tone chartImageBase64 =
     (if truthy chartImageBase64
      then contentPrompt topic chapterTitle points tone @ imageInstruction
      else contentPrompt topic chapterTitle points tone)"

text \<open>Lines 256 to 274: what \<^verbatim>\<open>callAI\<close> is given.\<close>

definition contentRequest ::
  "jsstring \<Rightarrow> jsstring \<Rightarrow> jsstring list \<Rightarrow> jsstring \<Rightarrow> jsstring option \<Rightarrow> Prompt" where
  "contentRequest topic chapterTitle points tone chartImageBase64 =
     (case chartImageBase64 of
        Some (c # cs) \<Rightarrow>
          (case matchDataUri (c # cs) of
             Some (m, d) \<Rightarrow>
               PartsPrompt
                 [imagePart m d,
                  textPart (promptText topic chapterTitle points tone chartImageBase64)]
           | None \<Rightarrow> StringPrompt (promptText topic chapterTitle points tone chartImageBase64))
      | _ \<Rightarrow> StringPrompt (promptText topic chapterTitle points tone chartImageBase64))"

definition generateChapterContent ::
  "World \<Rightarrow> jsstring \<Rightarrow> jsstring \<Rightarrow> jsstring list \<Rightarrow> jsstring \<Rightarrow> AIConfig \<Rightarrow> jsstring option
     \<Rightarrow> jsstring Outcome" where
  "generateChapterContent w topic chapterTitle points tone config chartImageBase64 =
     callAI w (contentRequest topic chapterTitle points tone chartImageBase64) config None
       (js ''text/plain'') None"

subsection \<open>\<^verbatim>\<open>refineContent\<close>\<close>

definition refinePrompt :: "jsstring \<Rightarrow> jsstring \<Rightarrow> jsstring" where
  "refinePrompt originalContent instruction =
     concat
      [nl, js ''    Original Text:'', nl, js ''    '', originalContent, nl, js ''    '', nl,
       js ''    User Instruction: '', dq, instruction, dq, nl, js ''    '', nl,
       js ''    Rewrite the text above following the user's instruction. Keep the same general meaning but adjust based on the request. Return only the rewritten text in Markdown.'',
       nl, js ''  '']"
definition refineContent :: "World \<Rightarrow> jsstring \<Rightarrow> jsstring \<Rightarrow> AIConfig \<Rightarrow> jsstring Outcome" where
  "refineContent w originalContent instruction config =
     callAI w (StringPrompt (refinePrompt originalContent instruction)) config None
       (js ''text/plain'') None"

section \<open>What the specification says of the results\<close>

text \<open>
  The parts of a multimodal prompt as the specification describes them: each is either a
  text or an inline image. \<open>toPart\<close> is the object that \<^verbatim>\<open>callAI\<close> receives for it, and
  \<open>claimedEntry\<close> the entry that the specification promises for it.
\<close>

datatype PartShape = TextShape jsstring | ImageShape jsstring jsstring

fun toPart :: "PartShape \<Rightarrow> Part" where
  "toPart (TextShape t) = textPart t"
| "toPart (ImageShape m d) = imagePart m d"

fun claimedEntry :: "PartShape \<Rightarrow> ContentEntry" where
  "claimedEntry (TextShape t) = TextEntry t"
| "claimedEntry (ImageShape m d) = ImageUrlEntry (js ''data:'' @ m @ js '';base64,'' @ d)"

text \<open>
  The shape that the specification promises of a successful \<^verbatim>\<open>generateOutlines\<close>: an object
  whose \<^verbatim>\<open>outlines\<close> are exactly three records, each with a non-empty \<^verbatim>\<open>style\<close>, a
  non-empty \<^verbatim>\<open>description\<close> and five to eight chapter titles.
\<close>

fun isJString :: "json \<Rightarrow> bool" where
  "isJString (JString s) = True"
| "isJString JNull = False"
| "isJString (JBool b) = False"
| "isJString (JNumber n) = False"
| "isJString (JArray xs) = False"
| "isJString (JObject ms) = False"

definition isOutlineRecord :: "json \<Rightarrow> bool" where
  "isOutlineRecord v =
     (case v of
        JObject ms \<Rightarrow>
          (case (map_of ms (js ''style''), map_of ms (js ''description''), map_of ms (js ''chapters'')) of
             (Some (JString s), Some (JString d), Some (JArray cs)) \<Rightarrow>
               s \<noteq> [] \<and> d \<noteq> [] \<and> 5 \<le> length cs \<and> length cs \<le> 8 \<and> list_all isJString cs
           | _ \<Rightarrow> False)
      | _ \<Rightarrow> False)"

definition threeOutlines :: "json \<Rightarrow> bool" where
  "threeOutlines v =
     (case v of
        JObject ms \<Rightarrow>
          (case map_of ms (js ''outlines'') of
             Some (JArray os) \<Rightarrow> length os = 3 \<and> list_all isOutlineRecord os
           | _ \<Rightarrow> False)
      | _ \<Rightarrow> False)"

text \<open>The parsed value is an object with a member \<^verbatim>\<open>details\<close>.\<close>

fun hasDetailsKey :: "json \<Rightarrow> bool" where
  "hasDetailsKey (JObject ms) = (map_of ms (js ''details'') \<noteq> None)"
| "hasDetailsKey JNull = False"
| "hasDetailsKey (JBool b) = False"
| "hasDetailsKey (JNumber n) = False"
| "hasDetailsKey (JString s) = False"
| "hasDetailsKey (JArray xs) = False"

section \<open>A world and two configurations to run the services in\<close>

text \<open>A world in which both providers answer every request with the given text.\<close>

definition answering :: "jsstring \<Rightarrow> World" where
  "answering t =
     \<lparr>generateContent = (\<lambda>options. Inr (Some t)),
      fetch = (\<lambda>req. Inr \<lparr>ok = True, status = 200, bodyText = t, bodyContent = Inr (Some t)\<rparr>)\<rparr>"

text \<open>The initial configuration of \<^verbatim>\<open>App.tsx\<close>, and the OpenAI preset with a key.\<close>

definition defaultConfig :: AIConfig where
  "defaultConfig =
     \<lparr>provider = js ''gemini'', modelName = js ''gemini-2.5-flash'', apiKey = None, baseUrl = None\<rparr>"

definition openaiConfig :: AIConfig where
  "openaiConfig =
     \<lparr>provider = js ''openai'', modelName = js ''gpt-4o'', apiKey = Some (js ''sk-test''),
      baseUrl = Some (js ''https://api.openai.com/v1/'')\<rparr>"

section \<open>Strings: containment, trimming, removing a pattern\<close>

lemma includes_js_sublist: "includes_js s pat \<longleftrightarrow> sublist pat s"
  by (induction s) (simp_all add: sublist_Cons_right)

lemma removeAll_id: "\<not> includes_js s pat \<Longrightarrow> removeAll s pat = s"
  by (induction s) simp_all

lemma js_fence: "js ''```'' = [0x60, 0x60, 0x60]"
  by (simp add: js_def)

lemma js_fence_json: "js ''```json'' = [0x60, 0x60, 0x60, 0x6A, 0x73, 0x6F, 0x6E]"
  by (simp add: js_def)

lemma ticks_simps [simp]: "ticks [] = 0" "ticks (c # cs) = (if c = 0x60 then Suc (ticks cs) else 0)"
  by (simp_all add: ticks_def)

lemma trim_sublist: "sublist (trim s) s"
proof -
  let ?d = "dropWhile isWhiteSpace s"
  have "sublist (dropWhile isWhiteSpace (rev ?d)) (rev ?d)"
    by (rule sublist_dropWhile)
  then have "sublist (rev (dropWhile isWhiteSpace (rev ?d))) ?d"
    by (simp add: sublist_rev_left)
  moreover have "sublist ?d s"
    by (rule sublist_dropWhile)
  ultimately show ?thesis
    unfolding trim_def by (rule sublist_order.order_trans)
qed

lemma last_dropWhile: "dropWhile P xs \<noteq> [] \<Longrightarrow> last (dropWhile P xs) = last xs"
proof -
  assume a: "dropWhile P xs \<noteq> []"
  have "last (takeWhile P xs @ dropWhile P xs) = last (dropWhile P xs)"
    using a by (rule last_appendR)
  then show ?thesis by simp
qed

lemma trim_fixed: "s = [] \<or> (\<not> isWhiteSpace (hd s) \<and> \<not> isWhiteSpace (last s)) \<Longrightarrow> trim s = s"
proof (cases "s = []")
  case True
  then show ?thesis by (simp add: trim_def)
next
  case False
  assume "s = [] \<or> (\<not> isWhiteSpace (hd s) \<and> \<not> isWhiteSpace (last s))"
  with False have h: "\<not> isWhiteSpace (hd s)" and l: "\<not> isWhiteSpace (last s)" by simp_all
  from h False have d: "dropWhile isWhiteSpace s = s"
    by (simp add: dropWhile_eq_self_iff)
  from l False have "dropWhile isWhiteSpace (rev s) = rev s"
    by (simp add: dropWhile_eq_self_iff hd_rev)
  with d show ?thesis by (simp add: trim_def)
qed

lemma trim_ends: "trim s = [] \<or> (\<not> isWhiteSpace (hd (trim s)) \<and> \<not> isWhiteSpace (last (trim s)))"
proof (cases "trim s = []")
  case True
  then show ?thesis by simp
next
  case False
  let ?d = "dropWhile isWhiteSpace s"
  let ?e = "dropWhile isWhiteSpace (rev ?d)"
  from False have e: "?e \<noteq> []" by (simp add: trim_def)
  have d: "?d \<noteq> []"
  proof
    assume "?d = []"
    then have "?e = []" by (simp only: rev.simps dropWhile.simps)
    with e show False by simp
  qed
  have "\<not> isWhiteSpace (hd ?e)" using e by (rule hd_dropWhile)
  then have l: "\<not> isWhiteSpace (last (trim s))"
    using e by (simp add: trim_def last_rev)
  have "last ?e = last (rev ?d)" using e by (rule last_dropWhile)
  also have "\<dots> = hd ?d" using d by (simp add: last_rev)
  finally have "\<not> isWhiteSpace (last ?e)"
    using hd_dropWhile [OF d] by simp
  then have "\<not> isWhiteSpace (hd (trim s))"
    using e by (simp add: trim_def hd_rev)
  with l show ?thesis by simp
qed

lemma trim_idem: "trim (trim s) = trim s"
  using trim_ends [of s] by (rule trim_fixed)


lemma prefix_ticks: "prefix [0x60, 0x60, 0x60] s \<longleftrightarrow> 3 \<le> ticks s"
proof (cases s)
  case Nil
  then show ?thesis by simp
next
  case s1: (Cons a s')
  show ?thesis
  proof (cases s')
    case Nil
    with s1 show ?thesis by simp
  next
    case s2: (Cons b s'')
    show ?thesis
    proof (cases s'')
      case Nil
      with s1 s2 show ?thesis by simp
    next
      case (Cons c r)
      with s1 s2 show ?thesis by simp
    qed
  qed
qed

lemma ticks_removeAll: "ticks (removeAll s [0x60, 0x60, 0x60]) = ticks s mod 3"
proof (induction s "[0x60, 0x60, 0x60] :: jsstring" rule: removeAll.induct)
  case 1
  show ?case by simp
next
  case (2 c cs)
  show ?case
  proof (cases "prefix [0x60, 0x60, 0x60] (c # cs)")
    case True
    then obtain r where r: "c # cs = 0x60 # 0x60 # 0x60 # r"
      by (auto simp: prefix_def)
    then have "removeAll (c # cs) [0x60, 0x60, 0x60] = removeAll r [0x60, 0x60, 0x60]"
      by simp
    moreover have "ticks (removeAll r [0x60, 0x60, 0x60]) = ticks r mod 3"
      using 2(1) [OF True] r by simp
    moreover have "ticks (c # cs) = ticks r + 3"
      using r by simp
    ultimately show ?thesis by simp
  next
    case False
    then have lt: "ticks (c # cs) < 3" by (simp only: prefix_ticks not_le)
    have ih: "ticks (removeAll cs [0x60, 0x60, 0x60]) = ticks cs mod 3"
      using 2(2) [OF False] .
    show ?thesis
    proof (cases "c = 0x60")
      case True
      with lt have "ticks cs < 2" by simp
      with True False ih lt show ?thesis by simp
    next
      case c: False
      with False show ?thesis by simp
    qed
  qed
qed

lemma sublist_removeAll_fence: "\<not> sublist [0x60, 0x60, 0x60] (removeAll s [0x60, 0x60, 0x60])"
proof (induction s "[0x60, 0x60, 0x60] :: jsstring" rule: removeAll.induct)
  case 1
  show ?case by simp
next
  case (2 c cs)
  show ?case
  proof (cases "prefix [0x60, 0x60, 0x60] (c # cs)")
    case True
    with 2(1) show ?thesis by simp
  next
    case False
    have "ticks (c # cs) mod 3 < 3"
      by (rule mod_less_divisor) simp
    then have "ticks (removeAll (c # cs) [0x60, 0x60, 0x60]) < 3"
      by (simp only: ticks_removeAll)
    then have np: "\<not> prefix [0x60, 0x60, 0x60] (removeAll (c # cs) [0x60, 0x60, 0x60])"
      by (simp only: prefix_ticks not_le)
    have eq: "removeAll (c # cs) [0x60, 0x60, 0x60] = c # removeAll cs [0x60, 0x60, 0x60]"
      using False by (simp only: removeAll.simps if_False)
    show ?thesis
      using np 2(2) [OF False] unfolding eq sublist_Cons_right by blast
  qed
qed

section \<open>The data-URI pattern\<close>

lemma splitLast_sound:
  "splitLast pre s = Some (m, d) \<Longrightarrow> pre @ s = m @ js '';base64,'' @ d \<and> m \<noteq> [] \<and> d \<noteq> []"
proof (induction s arbitrary: pre)
  case Nil
  then show ?case by simp
next
  case (Cons c cs)
  show ?case
  proof (cases "splitLast (pre @ [c]) cs")
    case (Some r)
    with Cons.prems have "splitLast (pre @ [c]) cs = Some (m, d)" by simp
    from Cons.IH [OF this] show ?thesis by simp
  next
    case None
    with Cons.prems have c: "pre \<noteq> []" "prefix (js '';base64,'') (c # cs)" "drop 8 (c # cs) \<noteq> []"
      and r: "m = pre" "d = drop 8 (c # cs)"
      by (auto split: if_splits)
    have "length (js '';base64,'') = 8" by (simp add: js_def)
    with c(2) have "c # cs = js '';base64,'' @ drop 8 (c # cs)"
      by (metis append_eq_conv_conj prefix_def)
    with c r show ?thesis by simp
  qed
qed

lemma matchDataUri_sound:
  assumes "matchDataUri s = Some (m, d)"
  shows "s = js ''data:'' @ m @ js '';base64,'' @ d"
proof -
  from assms have p: "prefix (js ''data:'') s" and sp: "splitLast [] (drop 5 s) = Some (m, d)"
    by (auto simp: matchDataUri_def split: if_splits)
  have "length (js ''data:'') = 5" by (simp add: js_def)
  with p have "s = js ''data:'' @ drop 5 s"
    by (metis append_eq_conv_conj prefix_def)
  moreover from splitLast_sound [OF sp] have "drop 5 s = m @ js '';base64,'' @ d" by simp
  ultimately show ?thesis by simp
qed

lemma separator: "js '';base64,'' = [0x3B, 0x62, 0x61, 0x73, 0x65, 0x36, 0x34, 0x2C]"
  by (simp add: js_def)

lemma splitLast_no_semicolon: "0x3B \<notin> set s \<Longrightarrow> splitLast pre s = None"
  by (induction s arbitrary: pre) (auto simp: separator)

lemma splitLast_complete:
  "pre @ m \<noteq> [] \<Longrightarrow> d \<noteq> [] \<Longrightarrow> 0x3B \<notin> set d \<Longrightarrow>
     splitLast pre (m @ js '';base64,'' @ d) = Some (pre @ m, d)"
proof (induction m arbitrary: pre)
  case Nil
  have none: "splitLast (pre @ [0x3B]) (0x62 # 0x61 # 0x73 # 0x65 # 0x36 # 0x34 # 0x2C # d) = None"
    by (rule splitLast_no_semicolon) (use Nil.prems(3) in simp)
  have "splitLast pre (0x3B # 0x62 # 0x61 # 0x73 # 0x65 # 0x36 # 0x34 # 0x2C # d) = Some (pre, d)"
    by (subst splitLast.simps(2)) (use Nil.prems in \<open>simp add: none separator del: splitLast.simps\<close>)
  then show ?case
    by (simp add: separator del: splitLast.simps)
next
  case (Cons c m)
  have "splitLast (pre @ [c]) (m @ js '';base64,'' @ d) = Some ((pre @ [c]) @ m, d)"
    using Cons.prems by (intro Cons.IH) simp_all
  then show ?case by simp
qed

lemma matchDataUri_complete:
  assumes "m \<noteq> []" "d \<noteq> []" "\<not> list_ex isLineTerminator (m @ d)" "0x3B \<notin> set d"
  shows "matchDataUri (js ''data:'' @ m @ js '';base64,'' @ d) = Some (m, d)"
proof -
  have l: "length (js ''data:'') = 5" by (simp add: js_def)
  have "\<not> list_ex isLineTerminator (js '';base64,'')"
    by (simp add: separator isLineTerminator_def)
  with assms(3) have "\<not> list_ex isLineTerminator (m @ js '';base64,'' @ d)"
    by simp
  moreover have "splitLast [] (m @ js '';base64,'' @ d) = Some (m, d)"
    using splitLast_complete [of "[]" m d] assms by simp
  ultimately show ?thesis
    using l by (simp add: matchDataUri_def)
qed

section \<open>The gateway: endpoint and configuration errors\<close>

lemma provider_names: "js ''openai'' \<noteq> js ''gemini''"
  by (simp add: js_def)

lemma callAI_openai:
  assumes "provider config = js ''openai''" "apiKey config = Some k" "k \<noteq> []"
    "baseUrl config = Some u" "u \<noteq> []"
  shows "calls (callAI w prompt config si mime schema)
           = [HttpPost (chatRequest k u (modelName config) prompt si mime)]"
proof -
  obtain k' ks where k: "k = k' # ks" using assms(3) by (cases k) auto
  obtain u' us where u: "u = u' # us" using assms(5) by (cases u) auto
  show ?thesis
    using assms(1,2,4) provider_names unfolding callAI_def k u
    by (simp add: Let_def split: sum.splits)
qed

text \<open>
  C1. Under the generic provider, with a key and a base URL, the gateway makes one HTTP
  POST. When the base URL contains \<^verbatim>\<open>/chat/completions\<close> the request goes to the base URL
  as it is; otherwise it goes to the base URL without one slash at its end, followed by
  \<^verbatim>\<open>/chat/completions\<close>.
\<close>

theorem callAI_endpoint:
  assumes "provider config = js ''openai''" "apiKey config = Some k" "k \<noteq> []"
    "baseUrl config = Some u" "u \<noteq> []"
  shows "\<exists>req. calls (callAI w prompt config si mime schema) = [HttpPost req]
           \<and> httpMethod req = js ''POST''
           \<and> (includes_js u (js ''/chat/completions'') \<longrightarrow> url req = u)
           \<and> (\<not> includes_js u (js ''/chat/completions'') \<longrightarrow>
                (\<forall>v. u = v @ js ''/'' \<longrightarrow> url req = v @ js ''/chat/completions'')
              \<and> (last u \<noteq> 0x2F \<longrightarrow> url req = u @ js ''/chat/completions''))"
proof -
  let ?req = "chatRequest k u (modelName config) prompt si mime"
  have "calls (callAI w prompt config si mime schema) = [HttpPost ?req]"
    using assms by (rule callAI_openai)
  moreover have "httpMethod ?req = js ''POST''"
    by (simp add: chatRequest_def)
  moreover have "url ?req = endpointUrl u"
    by (simp add: chatRequest_def)
  moreover have "js ''/'' = [0x2F]"
    by (simp add: js_def)
  ultimately show ?thesis
    using assms(5) by (auto simp: endpointUrl_def stripTrailingSlash_def)
qed

theorem callAI_endpoint_witness:
  "\<exists>req. calls (callAI (answering (js ''ok'')) (StringPrompt (js ''Hi'')) openaiConfig None (js ''text/plain'') None) = [HttpPost req]
     \<and> httpMethod req = js ''POST''
     \<and> url req = js ''https://api.openai.com/v1/chat/completions''"
proof -
  have a: "provider openaiConfig = js ''openai''" "apiKey openaiConfig = Some (js ''sk-test'')"
    "js ''sk-test'' \<noteq> []" "baseUrl openaiConfig = Some (js ''https://api.openai.com/v1/'')"
    "js ''https://api.openai.com/v1/'' \<noteq> []"
    by (simp_all add: openaiConfig_def js_def)
  have n: "\<not> includes_js (js ''https://api.openai.com/v1/'') (js ''/chat/completions'')"
    by code_simp
  have e: "js ''https://api.openai.com/v1/'' = js ''https://api.openai.com/v1'' @ js ''/''"
    by (simp add: js_def)
  from callAI_endpoint [OF a, of "answering (js ''ok'')" "StringPrompt (js ''Hi'')" None "js ''text/plain''" None]
  show ?thesis using n e by (auto simp: js_def)
qed

text \<open>
  C3. Under the generic provider, a key or a base URL that is absent or empty makes the
  gateway throw the configuration error, and a provider that is neither of the two known
  values makes it throw the unknown-provider error; in both cases no network call is made
  and nothing is logged.
\<close>

theorem callAI_configuration_errors:
  "(provider config = js ''openai'' \<and> (\<not> truthy (apiKey config) \<or> \<not> truthy (baseUrl config)) \<longrightarrow>
      callAI w prompt config si mime schema
        = \<lparr>calls = [], console = [],
           result = Inl (Error (js ''Missing API Key or Base URL for custom provider''))\<rparr>)
   \<and> (provider config \<noteq> js ''gemini'' \<and> provider config \<noteq> js ''openai'' \<longrightarrow>
      callAI w prompt config si mime schema
        = \<lparr>calls = [], console = [], result = Inl (Error (js ''Unknown Provider''))\<rparr>)"
proof (intro conjI impI)
  assume a: "provider config = js ''openai'' \<and> (\<not> truthy (apiKey config) \<or> \<not> truthy (baseUrl config))"
  then have p: "provider config \<noteq> js ''gemini''" using provider_names by simp
  from a have "(apiKey config = None \<or> apiKey config = Some []) \<or> (baseUrl config = None \<or> baseUrl config = Some [])"
    by (cases "apiKey config"; cases "baseUrl config") auto
  then show "callAI w prompt config si mime schema
        = \<lparr>calls = [], console = [],
           result = Inl (Error (js ''Missing API Key or Base URL for custom provider''))\<rparr>"
    using a p unfolding callAI_def
    by (auto split: option.splits list.splits)
next
  assume "provider config \<noteq> js ''gemini'' \<and> provider config \<noteq> js ''openai''"
  then show "callAI w prompt config si mime schema
        = \<lparr>calls = [], console = [], result = Inl (Error (js ''Unknown Provider''))\<rparr>"
    unfolding callAI_def by simp
qed

theorem callAI_configuration_errors_witness:
  "provider (openaiConfig\<lparr>apiKey := Some []\<rparr>) = js ''openai''
   \<and> \<not> truthy (apiKey (openaiConfig\<lparr>apiKey := Some []\<rparr>))
   \<and> callAI (answering (js ''ok'')) (StringPrompt (js ''Hi'')) (openaiConfig\<lparr>apiKey := Some []\<rparr>) None (js ''text/plain'') None
        = \<lparr>calls = [], console = [],
           result = Inl (Error (js ''Missing API Key or Base URL for custom provider''))\<rparr>
   \<and> provider (defaultConfig\<lparr>provider := js ''claude''\<rparr>) \<noteq> js ''gemini''
   \<and> provider (defaultConfig\<lparr>provider := js ''claude''\<rparr>) \<noteq> js ''openai''
   \<and> callAI (answering (js ''ok'')) (StringPrompt (js ''Hi'')) (defaultConfig\<lparr>provider := js ''claude''\<rparr>) None (js ''text/plain'') None
        = \<lparr>calls = [], console = [], result = Inl (Error (js ''Unknown Provider''))\<rparr>"
proof -
  have a: "provider (openaiConfig\<lparr>apiKey := Some []\<rparr>) = js ''openai''
      \<and> (\<not> truthy (apiKey (openaiConfig\<lparr>apiKey := Some []\<rparr>)) \<or> \<not> truthy (baseUrl (openaiConfig\<lparr>apiKey := Some []\<rparr>)))"
    by (simp add: openaiConfig_def)
  have b: "provider (defaultConfig\<lparr>provider := js ''claude''\<rparr>) \<noteq> js ''gemini''
      \<and> provider (defaultConfig\<lparr>provider := js ''claude''\<rparr>) \<noteq> js ''openai''"
    by (simp add: js_def)
  show ?thesis
    using a b
      callAI_configuration_errors [of "openaiConfig\<lparr>apiKey := Some []\<rparr>" "answering (js ''ok'')" "StringPrompt (js ''Hi'')" None "js ''text/plain''" None]
      callAI_configuration_errors [of "defaultConfig\<lparr>provider := js ''claude''\<rparr>" "answering (js ''ok'')" "StringPrompt (js ''Hi'')" None "js ''text/plain''" None]
    by (simp add: openaiConfig_def)
qed

section \<open>The gateway: multimodal prompts\<close>

lemma translatePart_shape:
  "translatePart (toPart sh) = (if sh = TextShape [] then None else Some (claimedEntry sh))"
  by (cases sh) (auto simp: translatePart_def textPart_def imagePart_def)

lemma map_filter_shapes:
  "List.map_filter translatePart (map toPart shapes)
     = map claimedEntry (filter (\<lambda>sh. sh \<noteq> TextShape []) shapes)"
  by (induction shapes) (simp_all add: List.map_filter_simps translatePart_shape)

lemma userContent_shapes:
  assumes "TextShape [] \<notin> set shapes"
  shows "userContent (PartsPrompt (map toPart shapes)) mime = ArrayContent (map claimedEntry shapes)"
proof -
  from assms have "filter (\<lambda>sh. sh \<noteq> TextShape []) shapes = shapes"
    by (simp add: filter_id_conv) blast
  then show ?thesis
    by (simp add: map_filter_shapes)
qed

lemma promptText_not_empty: "promptText topic chapterTitle points tone chart \<noteq> []"
  by (simp add: promptText_def contentPrompt_def nl_def)

lemma contentRequest_parts:
  assumes "contentRequest topic chapterTitle points tone chart = PartsPrompt ps"
  shows "\<exists>img m d. chart = Some img \<and> matchDataUri img = Some (m, d)
           \<and> ps = map toPart [ImageShape m d, TextShape (promptText topic chapterTitle points tone chart)]"
  using assms
  by (auto simp: contentRequest_def split: option.splits list.splits)

lemma contentRequest_match:
  assumes "matchDataUri img = Some (m, d)"
  shows "contentRequest topic chapterTitle points tone (Some img)
           = PartsPrompt [imagePart m d,
                          textPart (promptText topic chapterTitle points tone (Some img))]"
proof -
  from assms have "img \<noteq> []"
    by (auto simp: matchDataUri_def js_def split: if_splits)
  then obtain c cs where "img = c # cs" by (cases img) auto
  with assms show ?thesis
    by (simp add: contentRequest_def)
qed

lemma user_message:
  "last (messages (body (chatRequest k u mdl prompt si mime)))
     = \<lparr>role = js ''user'', content = userContent prompt mime\<rparr>"
  by (simp add: chatRequest_def)

text \<open>
  C2. \<^verbatim>\<open>callAI\<close> is private to the service module, and the only multimodal prompt it is
  given is the one that \<^verbatim>\<open>generateChapterContent\<close> builds: the image part made of the two
  groups of the data-URI pattern, then the prompt text, which is never empty. Under the
  generic provider with a key and a base URL, the user message of the one request then
  holds, in this order, the image entry whose URL is \<^verbatim>\<open>data:\<close>, mime type,
  \<^verbatim>\<open>;base64,\<close>, payload, and the text entry of the prompt text; that URL is the uploaded
  string, and it decodes to the same mime type and payload again. More generally, for
  every list of text and image parts in which no text is empty, the user content is the
  list of their entries in the same order; and the data URI of a mime type and payload
  decodes to them whenever both are non-empty and without line terminators and the
  payload has no semicolon, as in every base64 payload.
\<close>

theorem callAI_multimodal:
  assumes "provider config = js ''openai''" "apiKey config = Some k" "k \<noteq> []"
    "baseUrl config = Some u" "u \<noteq> []"
  shows "(contentRequest topic chapterTitle points tone chart = PartsPrompt ps \<longrightarrow>
           (\<exists>img m d. chart = Some img \<and> matchDataUri img = Some (m, d)
              \<and> ps = map toPart [ImageShape m d,
                     TextShape (promptText topic chapterTitle points tone chart)]
              \<and> TextShape [] \<notin> set [ImageShape m d,
                     TextShape (promptText topic chapterTitle points tone chart)]
              \<and> (\<exists>req. calls (generateChapterContent w topic chapterTitle points tone config chart)
                           = [HttpPost req]
                    \<and> role (last (messages (body req))) = js ''user''
                    \<and> content (last (messages (body req)))
                        = ArrayContent
                            [ImageUrlEntry (js ''data:'' @ m @ js '';base64,'' @ d),
                             TextEntry (promptText topic chapterTitle points tone chart)]
                    \<and> js ''data:'' @ m @ js '';base64,'' @ d = img
                    \<and> matchDataUri (js ''data:'' @ m @ js '';base64,'' @ d) = Some (m, d))))
       \<and> (TextShape [] \<notin> set shapes \<longrightarrow>
           (\<exists>req. calls (callAI w (PartsPrompt (map toPart shapes)) config si mime schema) = [HttpPost req]
              \<and> role (last (messages (body req))) = js ''user''
              \<and> content (last (messages (body req))) = ArrayContent (map claimedEntry shapes)))
       \<and> (m' \<noteq> [] \<and> d' \<noteq> [] \<and> \<not> list_ex isLineTerminator (m' @ d') \<and> 0x3B \<notin> set d' \<longrightarrow>
           matchDataUri (js ''data:'' @ m' @ js '';base64,'' @ d') = Some (m', d'))"
proof (intro conjI impI)
  assume a: "contentRequest topic chapterTitle points tone chart = PartsPrompt ps"
  let ?pt = "promptText topic chapterTitle points tone chart"
  from contentRequest_parts [OF a] obtain img m d
    where c: "chart = Some img" and md: "matchDataUri img = Some (m, d)"
      and ps: "ps = map toPart [ImageShape m d, TextShape ?pt]"
    by blast
  have ne: "TextShape [] \<notin> set [ImageShape m d, TextShape ?pt]"
    using promptText_not_empty [of topic chapterTitle points tone chart] by simp
  let ?req = "chatRequest k u (modelName config) (PartsPrompt ps) None (js ''text/plain'')"
  have "calls (generateChapterContent w topic chapterTitle points tone config chart) = [HttpPost ?req]"
    unfolding generateChapterContent_def a using assms by (rule callAI_openai)
  moreover have "role (last (messages (body ?req))) = js ''user''"
    by (simp add: user_message)
  moreover have "content (last (messages (body ?req)))
      = ArrayContent [ImageUrlEntry (js ''data:'' @ m @ js '';base64,'' @ d), TextEntry ?pt]"
    unfolding user_message ps using userContent_shapes [OF ne, of "js ''text/plain''"] by simp
  moreover have e: "js ''data:'' @ m @ js '';base64,'' @ d = img"
    using md by (rule matchDataUri_sound [symmetric])
  moreover have "matchDataUri (js ''data:'' @ m @ js '';base64,'' @ d) = Some (m, d)"
    unfolding e by (rule md)
  ultimately show "\<exists>img m d. chart = Some img \<and> matchDataUri img = Some (m, d)
              \<and> ps = map toPart [ImageShape m d, TextShape ?pt]
              \<and> TextShape [] \<notin> set [ImageShape m d, TextShape ?pt]
              \<and> (\<exists>req. calls (generateChapterContent w topic chapterTitle points tone config chart)
                           = [HttpPost req]
                    \<and> role (last (messages (body req))) = js ''user''
                    \<and> content (last (messages (body req)))
                        = ArrayContent
                            [ImageUrlEntry (js ''data:'' @ m @ js '';base64,'' @ d), TextEntry ?pt]
                    \<and> js ''data:'' @ m @ js '';base64,'' @ d = img
                    \<and> matchDataUri (js ''data:'' @ m @ js '';base64,'' @ d) = Some (m, d))"
    using c md ps ne by blast
next
  assume ne: "TextShape [] \<notin> set shapes"
  let ?req = "chatRequest k u (modelName config) (PartsPrompt (map toPart shapes)) si mime"
  have "calls (callAI w (PartsPrompt (map toPart shapes)) config si mime schema) = [HttpPost ?req]"
    using assms by (rule callAI_openai)
  moreover have "role (last (messages (body ?req))) = js ''user''"
    by (simp add: user_message)
  moreover have "content (last (messages (body ?req))) = ArrayContent (map claimedEntry shapes)"
    unfolding user_message using userContent_shapes [OF ne, of mime] by simp
  ultimately show "\<exists>req. calls (callAI w (PartsPrompt (map toPart shapes)) config si mime schema) = [HttpPost req]
              \<and> role (last (messages (body req))) = js ''user''
              \<and> content (last (messages (body req))) = ArrayContent (map claimedEntry shapes)"
    by blast
next
  assume "m' \<noteq> [] \<and> d' \<noteq> [] \<and> \<not> list_ex isLineTerminator (m' @ d') \<and> 0x3B \<notin> set d'"
  then show "matchDataUri (js ''data:'' @ m' @ js '';base64,'' @ d') = Some (m', d')"
    by (intro matchDataUri_complete) simp_all
qed

theorem callAI_multimodal_witness:
  "contentRequest (js ''Coffee'') (js ''Market Analysis'') [js ''demand trends''] (js ''Professional'')
       (Some (js ''data:image/png;base64,iVBORw0KGgo=''))
     = PartsPrompt (map toPart [ImageShape (js ''image/png'') (js ''iVBORw0KGgo=''),
         TextShape (promptText (js ''Coffee'') (js ''Market Analysis'') [js ''demand trends'']
            (js ''Professional'') (Some (js ''data:image/png;base64,iVBORw0KGgo='')))])
   \<and> (\<exists>req. calls (generateChapterContent (answering (js ''ok'')) (js ''Coffee'') (js ''Market Analysis'')
                  [js ''demand trends''] (js ''Professional'') openaiConfig
                  (Some (js ''data:image/png;base64,iVBORw0KGgo=''))) = [HttpPost req]
          \<and> content (last (messages (body req)))
              = ArrayContent
                  [ImageUrlEntry (js ''data:image/png;base64,iVBORw0KGgo=''),
                   TextEntry (promptText (js ''Coffee'') (js ''Market Analysis'') [js ''demand trends'']
                      (js ''Professional'') (Some (js ''data:image/png;base64,iVBORw0KGgo='')))])
   \<and> (\<exists>req. calls (callAI (answering (js ''ok''))
                  (PartsPrompt (map toPart [TextShape (js ''Look:''), ImageShape (js ''image/png'') (js ''iVBORw0KGgo='')]))
                  openaiConfig None (js ''text/plain'') None) = [HttpPost req]
          \<and> content (last (messages (body req)))
              = ArrayContent [TextEntry (js ''Look:''), ImageUrlEntry (js ''data:image/png;base64,iVBORw0KGgo='')])
   \<and> matchDataUri (js ''data:image/png;base64,iVBORw0KGgo='') = Some (js ''image/png'', js ''iVBORw0KGgo='')"
proof -
  let ?img = "js ''data:image/png;base64,iVBORw0KGgo=''"
  let ?pt = "promptText (js ''Coffee'') (js ''Market Analysis'') [js ''demand trends'']
            (js ''Professional'') (Some ?img)"
  let ?shapes = "[TextShape (js ''Look:''), ImageShape (js ''image/png'') (js ''iVBORw0KGgo='')]"
  have a: "provider openaiConfig = js ''openai''" "apiKey openaiConfig = Some (js ''sk-test'')"
    "js ''sk-test'' \<noteq> []" "baseUrl openaiConfig = Some (js ''https://api.openai.com/v1/'')"
    "js ''https://api.openai.com/v1/'' \<noteq> []"
    by (simp_all add: openaiConfig_def js_def)
  have md: "matchDataUri ?img = Some (js ''image/png'', js ''iVBORw0KGgo='')"
    by code_simp
  have cr: "contentRequest (js ''Coffee'') (js ''Market Analysis'') [js ''demand trends''] (js ''Professional'') (Some ?img)
      = PartsPrompt (map toPart [ImageShape (js ''image/png'') (js ''iVBORw0KGgo=''), TextShape ?pt])"
    by (simp add: contentRequest_match [OF md])
  have ne: "TextShape [] \<notin> set ?shapes"
    by (simp add: js_def)
  have b: "js ''image/png'' \<noteq> [] \<and> js ''iVBORw0KGgo='' \<noteq> []
      \<and> \<not> list_ex isLineTerminator (js ''image/png'' @ js ''iVBORw0KGgo='')
      \<and> 0x3B \<notin> set (js ''iVBORw0KGgo='')"
    by (simp add: js_def isLineTerminator_def)
  have u: "js ''data:'' @ js ''image/png'' @ js '';base64,'' @ js ''iVBORw0KGgo='' = ?img"
    by (simp add: js_def)
  have e: "map claimedEntry ?shapes = [TextEntry (js ''Look:''), ImageUrlEntry ?img]"
    by (simp add: js_def)
  note t = callAI_multimodal [OF a, where topic = "js ''Coffee''" and chapterTitle = "js ''Market Analysis''"
        and points = "[js ''demand trends'']" and tone = "js ''Professional''" and chart = "Some ?img"
        and ps = "map toPart [ImageShape (js ''image/png'') (js ''iVBORw0KGgo=''), TextShape ?pt]"
        and w = "answering (js ''ok'')" and shapes = ?shapes and si = None and mime = "js ''text/plain''"
        and schema = None and m' = "js ''image/png''" and d' = "js ''iVBORw0KGgo=''"]
  from t cr md have 1: "\<exists>req. calls (generateChapterContent (answering (js ''ok'')) (js ''Coffee'') (js ''Market Analysis'')
                  [js ''demand trends''] (js ''Professional'') openaiConfig (Some ?img)) = [HttpPost req]
          \<and> content (last (messages (body req))) = ArrayContent [ImageUrlEntry ?img, TextEntry ?pt]"
    by (metis option.inject prod.inject)
  from t ne have 2: "\<exists>req. calls (callAI (answering (js ''ok'')) (PartsPrompt (map toPart ?shapes))
                  openaiConfig None (js ''text/plain'') None) = [HttpPost req]
          \<and> content (last (messages (body req))) = ArrayContent [TextEntry (js ''Look:''), ImageUrlEntry ?img]"
    unfolding e by blast
  from t b have 3: "matchDataUri ?img = Some (js ''image/png'', js ''iVBORw0KGgo='')"
    unfolding u by blast
  from cr 1 2 3 show ?thesis by blast
qed

section \<open>Sanitising is idempotent and removes a code fence\<close>

lemma stripFences_no_fence: "\<not> sublist [0x60, 0x60, 0x60] (stripFences s)"
proof
  assume "sublist [0x60, 0x60, 0x60] (stripFences s)"
  then have "sublist [0x60, 0x60, 0x60] (removeAll (removeAll s (js ''```json'')) [0x60, 0x60, 0x60])"
    unfolding stripFences_def js_fence using trim_sublist by (rule sublist_order.order_trans)
  then show False by (simp add: sublist_removeAll_fence)
qed

lemma stripFences_idem: "stripFences (stripFences s) = stripFences s"
proof -
  let ?t = "stripFences s"
  have nf: "\<not> sublist [0x60, 0x60, 0x60] ?t" by (rule stripFences_no_fence)
  have "sublist [0x60, 0x60, 0x60] (js ''```json'')"
    unfolding js_fence_json by (rule prefix_imp_sublist) simp
  then have "\<not> sublist (js ''```json'') ?t"
    using nf sublist_order.order_trans by blast
  then have "removeAll ?t (js ''```json'') = ?t"
    by (simp add: removeAll_id includes_js_sublist)
  moreover have "removeAll ?t (js ''```'') = ?t"
    using nf by (simp add: removeAll_id includes_js_sublist js_fence)
  moreover have "trim ?t = ?t"
    unfolding stripFences_def by (rule trim_idem)
  ultimately show ?thesis
    by (simp add: stripFences_def [of ?t])
qed

lemma prefix_across:
  assumes "prefix pat (x @ c # y)" "c \<notin> set pat"
  shows "prefix pat x"
proof -
  from assms(1) have "prefix pat x \<or> (\<exists>us. pat = x @ us \<and> prefix us (c # y))"
    by (simp only: prefix_append)
  then show ?thesis
  proof
    assume "prefix pat x"
    then show ?thesis .
  next
    assume "\<exists>us. pat = x @ us \<and> prefix us (c # y)"
    then obtain us where us: "pat = x @ us" "prefix us (c # y)" by blast
    show ?thesis
    proof (cases us)
      case Nil
      with us(1) show ?thesis by simp
    next
      case (Cons a r)
      with us(2) have "a = c" by simp
      with Cons us(1) assms(2) show ?thesis by simp
    qed
  qed
qed

lemma removeAll_across:
  assumes "pat \<noteq> []" "c \<notin> set pat"
  shows "removeAll (x @ c # y) pat = removeAll x pat @ c # removeAll y pat"
  using assms
proof (induction x pat rule: removeAll.induct)
  case (1 pat)
  have "\<not> prefix pat (c # y)"
  proof
    assume "prefix pat (c # y)"
    with 1 show False by (cases pat) auto
  qed
  then show ?case by simp
next
  case (2 a as pat)
  show ?case
  proof (cases "prefix pat (a # as)")
    case True
    then have p: "prefix pat ((a # as) @ c # y)"
      by (rule prefix_prefix)
    from True have "length pat \<le> length (a # as)"
      by (rule prefix_length_le)
    then have d: "drop (length pat - 1) (as @ c # y) = drop (length pat - 1) as @ c # y"
      by simp
    have "removeAll ((a # as) @ c # y) pat = removeAll (drop (length pat - 1) as @ c # y) pat"
      using p d by simp
    also have "\<dots> = removeAll (drop (length pat - 1) as) pat @ c # removeAll y pat"
      using 2(1) [OF True] 2(3,4) by simp
    also have "\<dots> = removeAll (a # as) pat @ c # removeAll y pat"
      using True by simp
    finally show ?thesis .
  next
    case False
    have "\<not> prefix pat ((a # as) @ c # y)"
      using False prefix_across [of pat "a # as" c y] 2(4) by blast
    then have "removeAll ((a # as) @ c # y) pat = a # removeAll (as @ c # y) pat"
      by simp
    also have "\<dots> = a # removeAll as pat @ c # removeAll y pat"
      using 2(2) [OF False] 2(3,4) by simp
    also have "\<dots> = removeAll (a # as) pat @ c # removeAll y pat"
      using False by simp
    finally show ?thesis .
  qed
qed

lemma trim_white_front: "isWhiteSpace c \<Longrightarrow> trim (c # s) = trim s"
  by (simp add: trim_def)

lemma trim_white_back:
  assumes "isWhiteSpace c"
  shows "trim (s @ [c]) = trim s"
proof (cases "\<forall>x \<in> set s. isWhiteSpace x")
  case True
  with assms have "\<forall>x \<in> set (s @ [c]). isWhiteSpace x"
    by simp
  then have "dropWhile isWhiteSpace (s @ [c]) = []"
    by (simp only: dropWhile_eq_Nil_conv)
  moreover from True have "dropWhile isWhiteSpace s = []"
    by (simp only: dropWhile_eq_Nil_conv)
  ultimately show ?thesis by (simp only: trim_def)
next
  case False
  then obtain x where "x \<in> set s" "\<not> isWhiteSpace x" by blast
  then have "dropWhile isWhiteSpace (s @ [c]) = dropWhile isWhiteSpace s @ [c]"
    by (rule dropWhile_append1)
  with assms show ?thesis by (simp add: trim_def)
qed

lemma stripFences_fenced: "stripFences (fenced j) = stripFences j"
proof -
  let ?F = "[0x60, 0x60, 0x60, 0x6A, 0x73, 0x6F, 0x6E] :: jsstring"
  let ?B = "[0x60, 0x60, 0x60] :: jsstring"
  let ?j = "removeAll j ?F"
  have nlw: "isWhiteSpace 0x0A" by (simp add: isWhiteSpace_def)
  have "removeAll (fenced j) ?F = removeAll (0x0A # j @ 0x0A # ?B) ?F"
    by (simp add: fenced_def js_fence js_fence_json)
  also have "\<dots> = 0x0A # removeAll (j @ 0x0A # ?B) ?F"
    by simp
  also have "removeAll (j @ 0x0A # ?B) ?F = ?j @ 0x0A # removeAll ?B ?F"
    by (rule removeAll_across) simp_all
  also have "removeAll ?B ?F = ?B"
    by simp
  finally have 1: "removeAll (fenced j) ?F = 0x0A # ?j @ 0x0A # ?B" .
  have "removeAll (0x0A # ?j @ 0x0A # ?B) ?B = 0x0A # removeAll (?j @ 0x0A # ?B) ?B"
    by simp
  also have "removeAll (?j @ 0x0A # ?B) ?B = removeAll ?j ?B @ 0x0A # removeAll ?B ?B"
    by (rule removeAll_across) simp_all
  also have "removeAll ?B ?B = []"
    by simp
  finally have 2: "removeAll (removeAll (fenced j) ?F) ?B = 0x0A # removeAll ?j ?B @ [0x0A]"
    unfolding 1 .
  have "trim (0x0A # removeAll ?j ?B @ [0x0A]) = trim (removeAll ?j ?B @ [0x0A])"
    using nlw by (rule trim_white_front)
  also have "\<dots> = trim (removeAll ?j ?B)"
    using nlw by (rule trim_white_back)
  finally show ?thesis
    unfolding stripFences_def js_fence js_fence_json 2 .
qed

text \<open>
  C8. Sanitising is idempotent: sanitising a sanitised text changes nothing. And a JSON
  text gives the same parse result whether it comes bare or wrapped in a \<^verbatim>\<open>json\<close> code
  block: the sanitiser maps both to the same string.
\<close>

theorem stripFences_idempotent:
  "stripFences (stripFences s) = stripFences s
   \<and> JSON_parse (stripFences (fenced j)) = JSON_parse (stripFences j)"
  by (simp add: stripFences_idem stripFences_fenced)

theorem stripFences_idempotent_witness:
  "stripFences (stripFences (fenced (js ''{}''))) = js ''{}''
   \<and> JSON_parse (stripFences (fenced (js ''{}''))) = Some (JObject [])"
proof -
  have s: "stripFences (js ''{}'') = js ''{}''" by code_simp
  have p: "JSON_parse (js ''{}'') = Some (JObject [])" by code_simp
  have f: "stripFences (fenced (js ''{}'')) = js ''{}''" by code_simp
  show ?thesis
    using stripFences_idempotent [of "fenced (js ''{}'')" "js ''{}''"] s p f by simp
qed

section \<open>\<^verbatim>\<open>generateOutlines\<close>\<close>

lemma space_is_white: "list_all isWhiteSpace (js '' '')"
  by (simp add: js_def isWhiteSpace_def)

text \<open>
  C6 as stated fails: the guard of \<^verbatim>\<open>generateOutlines\<close> is \<^verbatim>\<open>!topic\<close>, which only the
  empty string satisfies. A topic of one space goes to the provider, and here the call
  even succeeds. (In the application the caller \<^verbatim>\<open>handleGenerate\<close> returns before the call
  when \<^verbatim>\<open>topic.trim()\<close> is empty.)
\<close>

theorem generateOutlines_whitespace_topic_counterexample:
  "list_all isWhiteSpace (js '' '')
   \<and> calls (generateOutlines (answering (js ''{}'')) (js '' '') [] defaultConfig)
       = [SdkCall (generateOptions (js ''gemini-2.5-flash'') (StringPrompt (outlinesPrompt (js '' '') []))
            None (js ''application/json'') (Some outlinesSchema))]
   \<and> result (generateOutlines (answering (js ''{}'')) (js '' '') [] defaultConfig) = Inr (JObject [])"
proof -
  have p: "JSON_parse (stripFences (js ''{}'')) = Some (JObject [])"
    by code_simp
  have t: "js '' '' \<noteq> []" by (simp add: js_def)
  show ?thesis
    using p t space_is_white
    by (simp add: generateOutlines_def callAI_def defaultConfig_def answering_def Let_def)
qed

text \<open>
  C6, amended. For the empty topic \<^verbatim>\<open>generateOutlines\<close> throws \<^verbatim>\<open>Topic is required\<close> without
  a network call and without logging. For every other topic, one of white space only
  included, its network calls are those of the gateway call it makes.
\<close>

theorem generateOutlines_topic_guard:
  "generateOutlines w [] customStyle config
     = \<lparr>calls = [], console = [], result = Inl (Error (js ''Topic is required''))\<rparr>
   \<and> (topic \<noteq> [] \<longrightarrow>
        calls (generateOutlines w topic customStyle config)
          = calls (callAI w (StringPrompt (outlinesPrompt topic customStyle)) config None
                     (js ''application/json'')
                     (if provider config = js ''gemini'' then Some outlinesSchema else None)))"
  by (simp add: generateOutlines_def Let_def split: sum.splits option.splits)

theorem generateOutlines_topic_guard_witness:
  "js ''Coffee'' \<noteq> []
   \<and> calls (generateOutlines (answering (js ''{}'')) (js ''Coffee'') [] defaultConfig)
       = calls (callAI (answering (js ''{}'')) (StringPrompt (outlinesPrompt (js ''Coffee'') [])) defaultConfig None
                     (js ''application/json'') (Some outlinesSchema))"
proof -
  have t: "js ''Coffee'' \<noteq> []" by (simp add: js_def)
  have g: "provider defaultConfig = js ''gemini''" by (simp add: defaultConfig_def)
  show ?thesis
    using t g generateOutlines_topic_guard [of "answering (js ''{}'')" "[]" defaultConfig "js ''Coffee''"]
    by simp
qed

text \<open>
  C4. When the text that the gateway returns does not parse after sanitising,
  \<^verbatim>\<open>generateOutlines\<close> throws an error whose message is the fixed sentence
  \<^verbatim>\<open>AI response was not valid JSON. Please try again.\<close>: not a parser error, no partial
  result, and nothing of the response text. The response text goes to the console only.
\<close>

theorem generateOutlines_parse_failure:
  assumes "topic \<noteq> []"
    and "result (callAI w (StringPrompt (outlinesPrompt topic customStyle)) config None
                   (js ''application/json'')
                   (if provider config = js ''gemini'' then Some outlinesSchema else None)) = Inr text"
    and "JSON_parse (stripFences text) = None"
  shows "result (generateOutlines w topic customStyle config)
           = Inl (Error (js ''AI response was not valid JSON. Please try again.''))
         \<and> console (generateOutlines w topic customStyle config)
           = console (callAI w (StringPrompt (outlinesPrompt topic customStyle)) config None
                   (js ''application/json'')
                   (if provider config = js ''gemini'' then Some outlinesSchema else None))
             @ [ConsoleError (js ''Failed to parse JSON'') text]"
  using assms by (simp add: generateOutlines_def Let_def)

theorem generateOutlines_parse_failure_witness:
  "js ''Coffee'' \<noteq> []
   \<and> JSON_parse (stripFences (js ''Sure! {'')) = None
   \<and> result (generateOutlines (answering (js ''Sure! {'')) (js ''Coffee'') [] defaultConfig)
       = Inl (Error (js ''AI response was not valid JSON. Please try again.''))
   \<and> console (generateOutlines (answering (js ''Sure! {'')) (js ''Coffee'') [] defaultConfig)
       = [ConsoleError (js ''Failed to parse JSON'') (js ''Sure! {'')]"
proof -
  have t: "js ''Coffee'' \<noteq> []" by (simp add: js_def)
  have p: "JSON_parse (stripFences (js ''Sure! {'')) = None" by code_simp
  have r: "result (callAI (answering (js ''Sure! {'')) (StringPrompt (outlinesPrompt (js ''Coffee'') [])) defaultConfig None
                   (js ''application/json'')
                   (if provider defaultConfig = js ''gemini'' then Some outlinesSchema else None)) = Inr (js ''Sure! {'')"
    by (simp add: callAI_def defaultConfig_def answering_def Let_def)
  have c: "console (callAI (answering (js ''Sure! {'')) (StringPrompt (outlinesPrompt (js ''Coffee'') [])) defaultConfig None
                   (js ''application/json'')
                   (if provider defaultConfig = js ''gemini'' then Some outlinesSchema else None)) = []"
    by (simp add: callAI_def defaultConfig_def answering_def Let_def)
  show ?thesis
    using t p generateOutlines_parse_failure [OF t r p] c by simp
qed

text \<open>
  C9 as stated fails: \<^verbatim>\<open>generateOutlines\<close> returns whatever value the response parses to.
  For the response \<^verbatim>\<open>{}\<close> it succeeds with an object that has no outlines at all.
\<close>

theorem generateOutlines_shape_counterexample:
  "result (generateOutlines (answering (js ''{}'')) (js ''Coffee'') [] defaultConfig) = Inr (JObject [])
   \<and> \<not> threeOutlines (JObject [])"
proof -
  have p: "JSON_parse (stripFences (js ''{}'')) = Some (JObject [])"
    by code_simp
  have t: "js ''Coffee'' \<noteq> []" by (simp add: js_def)
  show ?thesis
    using p t
    by (simp add: generateOutlines_def callAI_def defaultConfig_def answering_def Let_def threeOutlines_def)
qed

text \<open>
  C9, amended. \<^verbatim>\<open>generateOutlines\<close> succeeds exactly when the topic is not empty, the
  gateway returns a text, and the sanitised text parses; the value it returns is the parsed
  value, of whatever shape. Three outlines with five to eight chapters are asked of the
  model in the prompt and are not checked.
\<close>

theorem generateOutlines_success:
  "result (generateOutlines w topic customStyle config) = Inr v \<longleftrightarrow>
     topic \<noteq> []
     \<and> (\<exists>text. result (callAI w (StringPrompt (outlinesPrompt topic customStyle)) config None
                   (js ''application/json'')
                   (if provider config = js ''gemini'' then Some outlinesSchema else None)) = Inr text
          \<and> JSON_parse (stripFences text) = Some v)"
  by (auto simp: generateOutlines_def Let_def split: sum.splits option.splits)

theorem generateOutlines_success_witness:
  "result (generateOutlines (answering (js ''{}'')) (js ''Coffee'') [] defaultConfig) = Inr (JObject [])"
proof -
  have p: "JSON_parse (stripFences (js ''{}'')) = Some (JObject [])"
    by code_simp
  have t: "js ''Coffee'' \<noteq> []" by (simp add: js_def)
  have r: "result (callAI (answering (js ''{}'')) (StringPrompt (outlinesPrompt (js ''Coffee'') [])) defaultConfig None
                   (js ''application/json'')
                   (if provider defaultConfig = js ''gemini'' then Some outlinesSchema else None)) = Inr (js ''{}'')"
    by (simp add: callAI_def defaultConfig_def answering_def Let_def)
  show ?thesis
    using p t r generateOutlines_success [of "answering (js ''{}'')" "js ''Coffee''" "[]" defaultConfig "JObject []"]
    by blast
qed

section \<open>\<^verbatim>\<open>generateChapterDetails\<close>\<close>

lemma generateChapterDetails_result:
  assumes "result (callAI w (StringPrompt (detailsPrompt topic chapterTitle context)) config None
                (js ''application/json'')
                (if provider config = js ''gemini'' then Some detailsSchema else None)) = Inr text"
  shows "result (generateChapterDetails w topic chapterTitle context config) = Inr (detailsOfText text)"
  using assms by (simp add: generateChapterDetails_def Let_def)

lemma answering_details:
  "result (callAI (answering t) (StringPrompt (detailsPrompt topic chapterTitle context)) defaultConfig None
                (js ''application/json'')
                (if provider defaultConfig = js ''gemini'' then Some detailsSchema else None)) = Inr t"
  by (simp add: callAI_def defaultConfig_def answering_def Let_def)

text \<open>
  C10 as stated fails for the response \<^verbatim>\<open>null\<close>: it parses, the parsed value has no
  \<^verbatim>\<open>details\<close>, and yet the result is the list of the bullet-line fallback (empty here),
  not \<^verbatim>\<open>undefined\<close>. Reading \<^verbatim>\<open>details\<close> of \<^verbatim>\<open>null\<close> throws inside the same \<^verbatim>\<open>try\<close>, so
  the fallback also runs when parsing did not throw.
\<close>

theorem generateChapterDetails_null_counterexample:
  "JSON_parse (stripFences (js ''null'')) = Some JNull
   \<and> \<not> hasDetailsKey JNull
   \<and> result (generateChapterDetails (answering (js ''null'')) (js ''Coffee'') (js ''Intro'') [] defaultConfig)
       = Inr (Defined (JArray []))"
proof -
  have p: "JSON_parse (stripFences (js ''null'')) = Some JNull"
    by code_simp
  have f: "bulletFallback (js ''null'') = []"
    by code_simp
  have "detailsOfText (js ''null'') = Defined (JArray [])"
    by (simp add: detailsOfText_def p f)
  then show ?thesis
    using p generateChapterDetails_result [OF answering_details, of "js ''null''" "js ''Coffee''" "js ''Intro''" "[]"]
    by simp
qed

text \<open>
  C10, amended. When the sanitised response parses to a value other than \<^verbatim>\<open>null\<close> that has
  no member \<^verbatim>\<open>details\<close>, \<^verbatim>\<open>generateChapterDetails\<close> returns \<^verbatim>\<open>undefined\<close>: neither a
  list of strings nor the fallback. When it parses to \<^verbatim>\<open>null\<close>, the result is the
  bullet-line fallback.
\<close>

theorem generateChapterDetails_missing_details:
  assumes "result (callAI w (StringPrompt (detailsPrompt topic chapterTitle context)) config None
                (js ''application/json'')
                (if provider config = js ''gemini'' then Some detailsSchema else None)) = Inr text"
    and "JSON_parse (stripFences text) = Some v"
  shows "(v \<noteq> JNull \<and> \<not> hasDetailsKey v \<longrightarrow>
            result (generateChapterDetails w topic chapterTitle context config) = Inr Undefined)
         \<and> (v = JNull \<longrightarrow>
            result (generateChapterDetails w topic chapterTitle context config)
              = Inr (Defined (JArray (map JString (bulletFallback text)))))"
  using assms(2) unfolding generateChapterDetails_result [OF assms(1)]
  by (cases v) (auto simp: detailsOfText_def)

theorem generateChapterDetails_missing_details_witness:
  "JSON_parse (stripFences (js ''{}'')) = Some (JObject [])
   \<and> JObject [] \<noteq> JNull \<and> \<not> hasDetailsKey (JObject [])
   \<and> result (generateChapterDetails (answering (js ''{}'')) (js ''Coffee'') (js ''Intro'') [] defaultConfig)
       = Inr Undefined"
proof -
  have p: "JSON_parse (stripFences (js ''{}'')) = Some (JObject [])"
    by code_simp
  show ?thesis
    using p generateChapterDetails_missing_details [OF answering_details p, of "js ''Coffee''" "js ''Intro''" "[]"]
    by simp
qed

lemma generateChapterDetails_fallback:
  assumes "result (callAI w (StringPrompt (detailsPrompt topic chapterTitle context)) config None
                (js ''application/json'')
                (if provider config = js ''gemini'' then Some detailsSchema else None)) = Inr text"
    and "JSON_parse (stripFences text) = None"
  shows "result (generateChapterDetails w topic chapterTitle context config)
           = Inr (Defined (JArray (map JString (bulletFallback text))))"
  using assms(2) unfolding generateChapterDetails_result [OF assms(1)]
  by (simp add: detailsOfText_def)

lemma bulletFallback_no_bullets:
  "\<not> list_ex isBulletLine (split text 0x0A) \<Longrightarrow> bulletFallback text = []"
  by (simp add: bulletFallback_def list_ex_iff filter_empty_conv)

lemma stripMarker_at_start:
  "c = 0x2D \<or> c = 0x2022 \<Longrightarrow> stripMarker (c # cs) = dropWhile isWhiteSpace cs"
  by auto

text \<open>
  C5. The response \<^verbatim>\<open>  - foo\<close> does not parse, and its one line is a bullet line for
  the filter, which tests the trimmed line. The marker is then removed by a pattern
  anchored at the start of the untrimmed line, so for this indented line nothing is
  removed: the result keeps the indentation and the dash. The same line without
  indentation gives \<^verbatim>\<open>foo\<close>.
\<close>

theorem generateChapterDetails_indented_bullet:
  "JSON_parse (stripFences (js ''  - foo'')) = None
   \<and> isBulletLine (js ''  - foo'')
   \<and> result (generateChapterDetails (answering (js ''  - foo'')) (js ''Coffee'') (js ''Intro'') [] defaultConfig)
       = Inr (Defined (JArray [JString (js ''  - foo'')]))
   \<and> result (generateChapterDetails (answering (js ''- foo'')) (js ''Coffee'') (js ''Intro'') [] defaultConfig)
       = Inr (Defined (JArray [JString (js ''foo'')]))"
proof -
  have p: "JSON_parse (stripFences (js ''  - foo'')) = None"
    by code_simp
  have p': "JSON_parse (stripFences (js ''- foo'')) = None"
    by code_simp
  have b: "isBulletLine (js ''  - foo'')"
    by code_simp
  have f: "bulletFallback (js ''  - foo'') = [js ''  - foo'']"
    by code_simp
  have f': "bulletFallback (js ''- foo'') = [js ''foo'']"
    by code_simp
  show ?thesis
    using p b f f'
      generateChapterDetails_fallback [OF answering_details p, of "js ''Coffee''" "js ''Intro''" "[]"]
      generateChapterDetails_fallback [OF answering_details p', of "js ''Coffee''" "js ''Intro''" "[]"]
    by simp
qed

section \<open>\<^verbatim>\<open>generateChapterContent\<close>\<close>




end
